theory Spec2Isabelle
  imports Complex_Main "HOL-Library.Multiset" "HOL-Library.Word"
begin

section \<open>JavaScript strings and values\<close>

text \<open>
  A JavaScript string is a sequence of UTF-16 code units. The model writes it as a
  \<^typ>\<open>string\<close>, one \<^typ>\<open>char\<close> per code unit, which covers the code units
  \<open>0x00\<close> to \<open>0xFF\<close> (ASCII and the Latin-1 supplement). On these strings a code
  unit is a code point, so \<open>length\<close>, iteration and the regular expressions agree
  with the run-time.
\<close>

definition code :: "char \<Rightarrow> nat" where
  "code c = of_char c"

definition inRange :: "char \<Rightarrow> char \<Rightarrow> char \<Rightarrow> bool" where
  "inRange lo hi c = (code lo \<le> code c \<and> code c \<le> code hi)"

text \<open>
  \<open>String.prototype.toLowerCase\<close> on code units below \<open>0x100\<close>: the letters
  \<open>A-Z\<close> and the Latin-1 capitals \<open>0xC0-0xDE\<close> (without the sign \<open>0xD7\<close>) move up
  by \<open>0x20\<close>, which sets bit 5; every other code unit stays.
\<close>

definition isUpperCaseLetter :: "char \<Rightarrow> bool" where
  "isUpperCaseLetter c =
     (inRange CHR ''A'' CHR ''Z'' c \<or> (inRange (CHR 0xC0) (CHR 0xDE) c \<and> c \<noteq> CHR 0xD7))"

definition toLowerCaseChar :: "char \<Rightarrow> char" where
  "toLowerCaseChar c =
     (if isUpperCaseLetter c
      then (case c of Char b0 b1 b2 b3 b4 b5 b6 b7 \<Rightarrow> Char b0 b1 b2 b3 b4 True b6 b7)
      else c)"

definition toLowerCase :: "string \<Rightarrow> string" where
  "toLowerCase s = map toLowerCaseChar s"

text \<open>
  The case-insensitive flag \<open>/i\<close> of a regular expression without the \<open>u\<close> flag never
  lets a code unit from \<open>0x80\<close> on match an ASCII letter, so matching an all-ASCII,
  lower-case pattern under \<open>/i\<close> is matching it against the subject with \<open>A-Z\<close>
  folded to \<open>a-z\<close>.
\<close>

definition foldAscii :: "char \<Rightarrow> char" where
  "foldAscii c = (if inRange CHR ''A'' CHR ''Z'' c then toLowerCaseChar c else c)"

fun startsWith :: "string \<Rightarrow> string \<Rightarrow> bool" where
  "startsWith [] s = True"
| "startsWith (p # ps) [] = False"
| "startsWith (p # ps) (c # cs) = (p = c \<and> startsWith ps cs)"

fun includesAt :: "string \<Rightarrow> string \<Rightarrow> bool" where
  "includesAt p [] = startsWith p []"
| "includesAt p (c # cs) = (startsWith p (c # cs) \<or> includesAt p cs)"

text \<open>\<open>/(p1|p2|...)/i.test(s)\<close>: some alternative occurs somewhere in \<open>s\<close>.\<close>

definition testAlternatives :: "string list \<Rightarrow> string \<Rightarrow> bool" where
  "testAlternatives ps s = list_ex (\<lambda>p. includesAt p (map foldAscii s)) ps"

text \<open>Template literals print an integer in decimal.\<close>

fun natToString :: "nat \<Rightarrow> string" where
  "natToString n =
     (if n < 10 then [''0123456789'' ! n]
      else natToString (n div 10) @ [''0123456789'' ! (n mod 10)])"

declare natToString.simps [simp del]

definition numberToString :: "int \<Rightarrow> string" where
  "numberToString i = (if i < 0 then ''-'' @ natToString (nat (- i)) else natToString (nat i))"

text \<open>
  The value a caller passes as password at run time: a string, or anything whose
  \<open>typeof\<close> is not \<open>'string'\<close> (\<open>null\<close>, \<open>undefined\<close>, a number, an object).
\<close>

datatype jsvalue = JSString string | NotAString

section \<open>Password validator (\<open>passwordValidator.ts\<close>)\<close>

record PasswordRequirements =
  minLength :: int
  maxLength :: int
  requireUppercase :: bool
  requireLowercase :: bool
  requireNumbers :: bool
  requireSpecialChars :: bool
  preventCommonPasswords :: bool

text \<open>\<open>Partial<PasswordRequirements>\<close>: a key is present (\<open>Some\<close>) or absent.\<close>

record PartialPasswordRequirements =
  minLengthOpt :: "int option"
  maxLengthOpt :: "int option"
  requireUppercaseOpt :: "bool option"
  requireLowercaseOpt :: "bool option"
  requireNumbersOpt :: "bool option"
  requireSpecialCharsOpt :: "bool option"
  preventCommonPasswordsOpt :: "bool option"

record ValidationRequirement =
  ident :: string
  label :: string
  met :: bool
  required :: bool

datatype PasswordStrength = VeryWeak | Weak | Medium | Strong | VeryStrong | Invalid

record ValidationResult =
  isValid :: bool
  score :: int
  strength :: PasswordStrength
  feedback :: "string list"
  requirements :: "ValidationRequirement list"

definition DEFAULT_PASSWORD_REQUIREMENTS :: PasswordRequirements where
  "DEFAULT_PASSWORD_REQUIREMENTS =
     \<lparr>minLength = 8, maxLength = 128, requireUppercase = True, requireLowercase = True,
      requireNumbers = True, requireSpecialChars = True, preventCommonPasswords = True\<rparr>"

text \<open>\<open>{ ...DEFAULT_PASSWORD_REQUIREMENTS, ...options }\<close>\<close>

definition spread :: "PasswordRequirements \<Rightarrow> PartialPasswordRequirements \<Rightarrow> PasswordRequirements" where
  "spread d options =
     \<lparr>minLength = (case minLengthOpt options of None \<Rightarrow> minLength d | Some v \<Rightarrow> v),
      maxLength = (case maxLengthOpt options of None \<Rightarrow> maxLength d | Some v \<Rightarrow> v),
      requireUppercase = (case requireUppercaseOpt options of None \<Rightarrow> requireUppercase d | Some v \<Rightarrow> v),
      requireLowercase = (case requireLowercaseOpt options of None \<Rightarrow> requireLowercase d | Some v \<Rightarrow> v),
      requireNumbers = (case requireNumbersOpt options of None \<Rightarrow> requireNumbers d | Some v \<Rightarrow> v),
      requireSpecialChars =
        (case requireSpecialCharsOpt options of None \<Rightarrow> requireSpecialChars d | Some v \<Rightarrow> v),
      preventCommonPasswords =
        (case preventCommonPasswordsOpt options of None \<Rightarrow> preventCommonPasswords d | Some v \<Rightarrow> v)\<rparr>"

definition COMMON_PASSWORDS :: "string list" where
  "COMMON_PASSWORDS =
     [''password'', ''123456'', ''12345678'', ''qwerty'', ''abc123'',
      ''password123'', ''admin'', ''letmein'', ''welcome'', ''1234567890'',
      ''gearfalcon'', ''aircon'', ''service'', ''customer'', ''admin123'']"

subsection \<open>\<open>REGEX_PATTERNS\<close>\<close>

definition uppercaseTest :: "string \<Rightarrow> bool" where
  "uppercaseTest s = list_ex (inRange CHR ''A'' CHR ''Z'') s"

definition lowercaseTest :: "string \<Rightarrow> bool" where
  "lowercaseTest s = list_ex (inRange CHR ''a'' CHR ''z'') s"

definition numbersTest :: "string \<Rightarrow> bool" where
  "numbersTest s = list_ex (inRange CHR ''0'' CHR ''9'') s"

text \<open>The class of \<open>specialChars\<close>; the last three are the double quote, the
  backslash and the backtick.\<close>

definition specialCharClass :: string where
  "specialCharClass = ''!@#$%^&*(),.?:{}|<>_-+=[]/~'' @ [CHR 0x22, CHR 0x5C, CHR 0x60]"

definition specialCharsTest :: "string \<Rightarrow> bool" where
  "specialCharsTest s = list_ex (\<lambda>c. c \<in> set specialCharClass) s"

definition commonSequenceTest :: "string \<Rightarrow> bool" where
  "commonSequenceTest s =
     testAlternatives
       [''012'', ''123'', ''234'', ''345'', ''456'', ''567'', ''678'', ''789'', ''890'',
        ''abc'', ''bcd'', ''cde'', ''def'', ''efg'', ''fgh'', ''ghi'', ''hij'', ''ijk'',
        ''jkl'', ''klm'', ''lmn'', ''mno'', ''nop'', ''opq'', ''pqr'', ''qrs'', ''rst'',
        ''stu'', ''tuv'', ''uvw'', ''vwx'', ''wxy'', ''xyz''] s"

text \<open>\<open>/(.)\1{2,}/\<close>: a code unit other than a line terminator, three times in a row.\<close>

definition lineTerminator :: "char \<Rightarrow> bool" where
  "lineTerminator c = (c = CHR 0x0A \<or> c = CHR 0x0D)"

fun repeatedCharsTest :: "string \<Rightarrow> bool" where
  "repeatedCharsTest (a # b # c # cs) =
     ((\<not> lineTerminator a \<and> b = a \<and> c = a) \<or> repeatedCharsTest (b # c # cs))"
| "repeatedCharsTest cs = False"

definition keyboardTest :: "string \<Rightarrow> bool" where
  "keyboardTest s =
     testAlternatives
       [''qwe'', ''wer'', ''ert'', ''rty'', ''tyu'', ''yui'', ''uio'', ''iop'', ''asd'',
        ''sdf'', ''dfg'', ''fgh'', ''ghj'', ''hjk'', ''jkl'', ''zxc'', ''xcv'', ''cvb'',
        ''vbn'', ''bnm''] s"

subsection \<open>\<open>getPasswordStrength\<close> and \<open>getRequirementsList\<close>\<close>

definition getPasswordStrength :: "int \<Rightarrow> PasswordStrength" where
  "getPasswordStrength sc =
     (if sc \<ge> 80 then VeryStrong
      else if sc \<ge> 60 then Strong
      else if sc \<ge> 40 then Medium
      else if sc \<ge> 20 then Weak
      else VeryWeak)"

definition getRequirementsList :: "string \<Rightarrow> PasswordRequirements \<Rightarrow> ValidationRequirement list" where
  "getRequirementsList password config =
     filter required
       [\<lparr>ident = ''length'',
         label = ''At least '' @ numberToString (minLength config) @ '' characters'',
         met = (int (length password) \<ge> minLength config), required = True\<rparr>,
        \<lparr>ident = ''uppercase'', label = ''One uppercase letter (A-Z)'',
         met = uppercaseTest password, required = requireUppercase config\<rparr>,
        \<lparr>ident = ''lowercase'', label = ''One lowercase letter (a-z)'',
         met = lowercaseTest password, required = requireLowercase config\<rparr>,
        \<lparr>ident = ''numbers'', label = ''One number (0-9)'',
         met = numbersTest password, required = requireNumbers config\<rparr>,
        \<lparr>ident = ''special'', label = ''One special character (!@#$%^&*)'',
         met = specialCharsTest password, required = requireSpecialChars config\<rparr>,
        \<lparr>ident = ''common'', label = ''Not a common password'',
         met = (toLowerCase password \<notin> set COMMON_PASSWORDS),
         required = preventCommonPasswords config\<rparr>]"

subsection \<open>\<open>validatePasswordStrength\<close>\<close>

text \<open>
  The function body updates three local variables, \<open>feedback\<close>, \<open>score\<close> and
  \<open>isValid\<close>, statement by statement. The model passes them along as a record, one
  definition per statement, in the order of the source.
\<close>

record locals =
  feedbackVar :: "string list"
  scoreVar :: int
  isValidVar :: bool

definition hardFailure :: "string \<Rightarrow> locals \<Rightarrow> locals" where
  \<comment> \<open>\<open>feedback.push(msg); isValid = false;\<close>\<close>
  "hardFailure msg v = v\<lparr>feedbackVar := feedbackVar v @ [msg], isValidVar := False\<rparr>"

definition addScore :: "int \<Rightarrow> locals \<Rightarrow> locals" where
  \<comment> \<open>\<open>score += n;\<close>\<close>
  "addScore n v = v\<lparr>scoreVar := scoreVar v + n\<rparr>"

definition warning :: "string \<Rightarrow> locals \<Rightarrow> locals" where
  \<comment> \<open>\<open>feedback.push(msg); score -= 10;\<close>\<close>
  "warning msg v = v\<lparr>feedbackVar := feedbackVar v @ [msg], scoreVar := scoreVar v - 10\<rparr>"

definition dq :: string where
  "dq = [CHR 0x22]"

text \<open>The warning sign that starts each soft warning (U+26A0 U+FE0F), in UTF-8.\<close>

definition warningSign :: string where
  "warningSign = [CHR 0xE2, CHR 0x9A, CHR 0xA0, CHR 0xEF, CHR 0xB8, CHR 0x8F]"

definition msgTooShort :: "PasswordRequirements \<Rightarrow> string" where
  "msgTooShort config =
     ''Password must be at least '' @ numberToString (minLength config) @ '' characters long''"

definition msgTooLong :: "PasswordRequirements \<Rightarrow> string" where
  "msgTooLong config =
     ''Password must not exceed '' @ numberToString (maxLength config) @ '' characters''"

definition msgSpecial :: string where
  "msgSpecial =
     ''Password must contain at least one special character (!@#$%^&*(),.?'' @ dq
       @ '':{}|<>_-+=[]'' @ [CHR 0x5C] @ ''/)''"

definition msgSequence :: string where
  "msgSequence =
     warningSign @ '' Avoid common sequences like '' @ dq @ ''123'' @ dq @ '' or '' @ dq
       @ ''abc'' @ dq @ '' for better security''"

definition msgRepeated :: string where
  "msgRepeated =
     warningSign @ '' Avoid repeating characters like '' @ dq @ ''aaa'' @ dq
       @ '' for better security''"

definition msgKeyboard :: string where
  "msgKeyboard =
     warningSign @ '' Avoid keyboard patterns like '' @ dq @ ''qwerty'' @ dq
       @ '' for better security''"

definition lengthValidation :: "PasswordRequirements \<Rightarrow> string \<Rightarrow> locals \<Rightarrow> locals" where
  "lengthValidation config password v =
     (if int (length password) < minLength config then hardFailure (msgTooShort config) v
      else if int (length password) \<ge> minLength config then addScore 10 v
      else v)"

definition maxLengthValidation :: "PasswordRequirements \<Rightarrow> string \<Rightarrow> locals \<Rightarrow> locals" where
  "maxLengthValidation config password v =
     (if int (length password) > maxLength config then hardFailure (msgTooLong config) v else v)"

definition uppercaseCheck :: "PasswordRequirements \<Rightarrow> string \<Rightarrow> locals \<Rightarrow> locals" where
  "uppercaseCheck config password v =
     (if requireUppercase config \<and> \<not> uppercaseTest password
      then hardFailure ''Password must contain at least one uppercase letter (A-Z)'' v
      else if uppercaseTest password then addScore 15 v
      else v)"

definition lowercaseCheck :: "PasswordRequirements \<Rightarrow> string \<Rightarrow> locals \<Rightarrow> locals" where
  "lowercaseCheck config password v =
     (if requireLowercase config \<and> \<not> lowercaseTest password
      then hardFailure ''Password must contain at least one lowercase letter (a-z)'' v
      else if lowercaseTest password then addScore 15 v
      else v)"

definition numbersCheck :: "PasswordRequirements \<Rightarrow> string \<Rightarrow> locals \<Rightarrow> locals" where
  "numbersCheck config password v =
     (if requireNumbers config \<and> \<not> numbersTest password
      then hardFailure ''Password must contain at least one number (0-9)'' v
      else if numbersTest password then addScore 15 v
      else v)"

definition specialCharsCheck :: "PasswordRequirements \<Rightarrow> string \<Rightarrow> locals \<Rightarrow> locals" where
  "specialCharsCheck config password v =
     (if requireSpecialChars config \<and> \<not> specialCharsTest password
      then hardFailure msgSpecial v
      else if specialCharsTest password then addScore 15 v
      else v)"

definition commonPasswordCheck :: "PasswordRequirements \<Rightarrow> string \<Rightarrow> locals \<Rightarrow> locals" where
  "commonPasswordCheck config password v =
     (if preventCommonPasswords config \<and> toLowerCase password \<in> set COMMON_PASSWORDS
      then addScore (- 20)
             (hardFailure ''This password is too common. Please choose a more unique password'' v)
      else v)"

definition sequenceWarning :: "string \<Rightarrow> locals \<Rightarrow> locals" where
  "sequenceWarning password v = (if commonSequenceTest password then warning msgSequence v else v)"

definition repeatedWarning :: "string \<Rightarrow> locals \<Rightarrow> locals" where
  "repeatedWarning password v = (if repeatedCharsTest password then warning msgRepeated v else v)"

definition keyboardWarning :: "string \<Rightarrow> locals \<Rightarrow> locals" where
  "keyboardWarning password v = (if keyboardTest password then warning msgKeyboard v else v)"

definition lengthBonus :: "string \<Rightarrow> locals \<Rightarrow> locals" where
  "lengthBonus password v =
     (let v1 = (if length password \<ge> 12 then addScore 10 v else v)
      in if length password \<ge> 16 then addScore 10 v1 else v1)"

text \<open>
  \<open>new Set(password.toLowerCase()).size >= password.length * 0.7\<close>. The product is
  a double; for an integer on the left and any length a string can have, the
  comparison comes out as the exact one, \<open>10 * size \<ge> 7 * length\<close>.
\<close>

definition uniqueChars :: "string \<Rightarrow> nat" where
  "uniqueChars password = length (remdups (toLowerCase password))"

definition diversityBonus :: "string \<Rightarrow> locals \<Rightarrow> locals" where
  "diversityBonus password v =
     (if 10 * uniqueChars password \<ge> 7 * length password then addScore 10 v else v)"

definition hardChecks :: "PasswordRequirements \<Rightarrow> string \<Rightarrow> locals" where
  \<comment> \<open>the statements up to and including the common-password check\<close>
  "hardChecks config password =
     commonPasswordCheck config password
       (specialCharsCheck config password
         (numbersCheck config password
           (lowercaseCheck config password
             (uppercaseCheck config password
               (maxLengthValidation config password
                 (lengthValidation config password
                   \<lparr>feedbackVar = [], scoreVar = 0, isValidVar = True\<rparr>))))))"

definition softChecks :: "string \<Rightarrow> locals \<Rightarrow> locals" where
  \<comment> \<open>the three pattern warnings, then the bonus points\<close>
  "softChecks password v =
     diversityBonus password
       (lengthBonus password
         (keyboardWarning password (repeatedWarning password (sequenceWarning password v))))"

definition validatePasswordStrength :: "jsvalue \<Rightarrow> PartialPasswordRequirements \<Rightarrow> ValidationResult" where
  "validatePasswordStrength pw options =
     (let config = spread DEFAULT_PASSWORD_REQUIREMENTS options;
          required_result =
            \<lparr>isValid = False, score = 0, strength = Invalid,
             feedback = [''Password is required''],
             requirements = getRequirementsList '''' config\<rparr>
      in case pw of
           NotAString \<Rightarrow> required_result
         | JSString password \<Rightarrow>
             if password = [] then required_result
             else
               let v = softChecks password (hardChecks config password);
                   sc = max 0 (scoreVar v)
               in \<lparr>isValid = isValidVar v, score = sc, strength = getPasswordStrength sc,
                   feedback =
                     (if length (feedbackVar v) > 0 then feedbackVar v
                      else [''Password meets all requirements'']),
                   requirements = getRequirementsList password config\<rparr>)"

section \<open>Session token store (\<open>useAuth.tsx\<close>)\<close>

text \<open>The access token is \<open>string | null\<close>; \<open>Boolean(x)\<close> on such a value is false
  for \<open>null\<close> and for the empty string.\<close>

definition Boolean :: "string option \<Rightarrow> bool" where
  "Boolean x = (case x of None \<Rightarrow> False | Some s \<Rightarrow> s \<noteq> [])"

record AuthContextValue =
  accessToken :: "string option"
  isAuthenticated :: bool

text \<open>The context value that \<open>AuthProvider\<close> derives from its state \<open>accessToken\<close>.\<close>

definition AuthProvider :: "string option \<Rightarrow> AuthContextValue" where
  "AuthProvider accessTokenState =
     \<lparr>accessToken = accessTokenState, isAuthenticated = Boolean accessTokenState\<rparr>"

definition setAccessToken :: "string option \<Rightarrow> string option \<Rightarrow> string option" where
  \<comment> \<open>\<open>setAccessTokenState(token)\<close>\<close>
  "setAccessToken token accessTokenState = token"

definition logout :: "string option \<Rightarrow> string option" where
  \<comment> \<open>\<open>setAccessTokenState(null)\<close>\<close>
  "logout accessTokenState = None"

section \<open>Authenticated request pipeline (\<open>axiosClient.ts\<close>)\<close>

record request =
  requestId :: nat
  retry :: bool
  authorization :: "string option"

text \<open>
  What a promise is rejected with: an \<open>AxiosError\<close> with \<open>response?.status\<close> (absent
  for a network-level error) and the \<open>config\<close> of its request, or another error object
  with its message. Error objects are truthy.
\<close>

datatype error = AxiosError "int option" request | Error string

fun responseStatus :: "error \<Rightarrow> int option" where
  "responseStatus (AxiosError st c) = st"
| "responseStatus (Error m) = None"

text \<open>
  The state the module works on.
  \<^item> \<open>storedToken\<close> is the state cell of \<open>AuthProvider\<close>, which the registered setter
    writes; \<open>capturedToken\<close> is what the registered getter \<open>() => accessToken\<close> returns:
    the \<open>accessToken\<close> of the render whose effect has registered it.
  \<^item> \<open>isRefreshing\<close> and \<open>pendingQueue\<close> are the module variables; each queue entry
    is a pair of closures over one \<open>originalRequest\<close>, which stands for the entry.
  \<^item> \<open>suspended\<close> is the handler that waits at \<open>await AuthService.refresh()\<close> (its
    \<open>originalRequest\<close>).
  \<^item> What leaves the module is recorded: the number of calls of \<open>AuthService.refresh\<close>,
    the configs passed to \<open>http(...)\<close> whose request interceptor has not run yet
    (\<open>outgoing\<close>), the requests that have left through the transport (\<open>network\<close>), and
    the rejections of promises that were pending.
\<close>

record pipeline =
  storedToken :: "string option"
  capturedToken :: "string option"
  isRefreshing :: bool
  pendingQueue :: "request list"
  suspended :: "request option"
  refreshCalls :: nat
  outgoing :: "request list"
  network :: "request list"
  rejections :: "(request \<times> error) list"

definition getAccessToken :: "pipeline \<Rightarrow> string option" where
  "getAccessToken st = capturedToken st"

definition registeredSetter :: "string option \<Rightarrow> pipeline \<Rightarrow> pipeline" where
  \<comment> \<open>the setter that \<open>AuthProvider\<close> registers with \<open>registerTokenAccess\<close>\<close>
  "registeredSetter t st = st\<lparr>storedToken := setAccessToken t (storedToken st)\<rparr>"

text \<open>
  The effect of \<open>AuthProvider\<close> runs after a render with a new \<open>accessToken\<close> and
  registers a getter for it.
\<close>

definition registerTokenAccess :: "pipeline \<Rightarrow> pipeline" where
  "registerTokenAccess st = st\<lparr>capturedToken := storedToken st\<rparr>"

definition bearer :: "string \<Rightarrow> string" where
  "bearer token = ''Bearer '' @ token"

definition requestInterceptor :: "pipeline \<Rightarrow> request \<Rightarrow> request" where
  "requestInterceptor st config =
     (case getAccessToken st of
        None \<Rightarrow> config
      | Some token \<Rightarrow>
          if token \<noteq> [] then config\<lparr>authorization := Some (bearer token)\<rparr> else config)"

text \<open>
  \<open>http(config)\<close> returns a promise; the request interceptor runs later, as a
  microtask, and then the request goes out (\<open>dispatch\<close>), in the order of the calls.
\<close>

definition http :: "request \<Rightarrow> pipeline \<Rightarrow> pipeline" where
  "http config st = st\<lparr>outgoing := outgoing st @ [config]\<rparr>"

definition dispatch :: "pipeline \<Rightarrow> pipeline" where
  "dispatch st =
     (case outgoing st of
        [] \<Rightarrow> st
      | config # rest \<Rightarrow>
          st\<lparr>outgoing := rest, network := network st @ [requestInterceptor st config]\<rparr>)"

definition resolveEntry :: "request \<Rightarrow> string \<Rightarrow> pipeline \<Rightarrow> pipeline" where
  \<comment> \<open>the \<open>resolve\<close> closure of a queue entry\<close>
  "resolveEntry originalRequest newToken st =
     http (originalRequest\<lparr>authorization := Some (bearer newToken)\<rparr>) st"

definition rejectEntry :: "request \<Rightarrow> error \<Rightarrow> pipeline \<Rightarrow> pipeline" where
  "rejectEntry originalRequest err st =
     st\<lparr>rejections := rejections st @ [(originalRequest, err)]\<rparr>"

definition processEntry :: "error option \<Rightarrow> string option \<Rightarrow> request \<Rightarrow> pipeline \<Rightarrow> pipeline" where
  "processEntry err token entry st =
     (case err of
        Some e \<Rightarrow> rejectEntry entry e st
      | None \<Rightarrow>
          (case token of
             Some t \<Rightarrow>
               if t \<noteq> [] then resolveEntry entry t st
               else rejectEntry entry (Error ''No token available'') st
           | None \<Rightarrow> rejectEntry entry (Error ''No token available'') st))"

definition processQueue :: "error option \<Rightarrow> string option \<Rightarrow> pipeline \<Rightarrow> pipeline" where
  "processQueue err token st =
     (fold (processEntry err token) (pendingQueue st) st)\<lparr>pendingQueue := []\<rparr>"

text \<open>
  The response error handler up to its first suspension. It answers with a promise that
  is rejected at once, or with one that stays pending.
\<close>

datatype answer = Rejects error | Pending

definition onRejected :: "error \<Rightarrow> pipeline \<Rightarrow> answer \<times> pipeline" where
  "onRejected err st =
     (case err of
        Error m \<Rightarrow> (Rejects err, st)
      | AxiosError status config \<Rightarrow>
          if status \<noteq> Some 401 \<or> retry config then (Rejects err, st)
          else
            let originalRequest = config\<lparr>retry := True\<rparr>
            in if isRefreshing st
               then (Pending, st\<lparr>pendingQueue := pendingQueue st @ [originalRequest]\<rparr>)
               else (Pending,
                     st\<lparr>isRefreshing := True, suspended := Some originalRequest,
                        refreshCalls := refreshCalls st + 1\<rparr>))"

text \<open>The handler resumes: \<open>AuthService.refresh()\<close> has answered with \<open>access_token\<close>.\<close>

definition refreshFulfilled :: "string \<Rightarrow> pipeline \<Rightarrow> pipeline" where
  "refreshFulfilled access_token st =
     (case suspended st of
        None \<Rightarrow> st
      | Some originalRequest \<Rightarrow>
          let st1 = registeredSetter (Some access_token) st;
              st2 = processQueue None (Some access_token) st1;
              st3 = http (originalRequest\<lparr>authorization := Some (bearer access_token)\<rparr>) st2
          in st3\<lparr>isRefreshing := False, suspended := None\<rparr>)"

text \<open>The handler resumes: \<open>AuthService.refresh()\<close> has thrown \<open>refreshErr\<close>.\<close>

definition refreshRejected :: "error \<Rightarrow> pipeline \<Rightarrow> pipeline" where
  "refreshRejected refreshErr st =
     (case suspended st of
        None \<Rightarrow> st
      | Some originalRequest \<Rightarrow>
          let st1 = processQueue (Some refreshErr) None st;
              st2 = registeredSetter None st1;
              st3 = st2\<lparr>rejections := rejections st2 @ [(originalRequest, refreshErr)]\<rparr>
          in st3\<lparr>isRefreshing := False, suspended := None\<rparr>)"

text \<open>
  The tasks of the event loop that touch the module, and a run of them: a caller issues a
  request, the oldest waiting request passes the interceptor and goes out, a response
  error reaches the handler, the refresh call answers, \<open>AuthProvider\<close> registers its
  accessors anew.
\<close>

datatype event =
    Request request
  | Dispatch
  | ResponseError error
  | RefreshFulfilled string
  | RefreshRejected error
  | Registers

fun step :: "event \<Rightarrow> pipeline \<Rightarrow> pipeline" where
  "step (Request config) st = http config st"
| "step Dispatch st = dispatch st"
| "step (ResponseError err) st = snd (onRejected err st)"
| "step (RefreshFulfilled access_token) st = refreshFulfilled access_token st"
| "step (RefreshRejected refreshErr) st = refreshRejected refreshErr st"
| "step Registers st = registerTokenAccess st"

definition run :: "event list \<Rightarrow> pipeline \<Rightarrow> pipeline" where
  "run events st = fold step events st"

section \<open>Password validation hook (\<open>usePasswordValidation.tsx\<close>)\<close>

datatype UserType = Customer | Admin | Technician | Supervisor | Manager

definition ADMIN_PASSWORD_REQUIREMENTS :: PasswordRequirements where
  "ADMIN_PASSWORD_REQUIREMENTS = DEFAULT_PASSWORD_REQUIREMENTS\<lparr>minLength := 12, maxLength := 128\<rparr>"

definition CUSTOMER_PASSWORD_REQUIREMENTS :: PasswordRequirements where
  "CUSTOMER_PASSWORD_REQUIREMENTS = DEFAULT_PASSWORD_REQUIREMENTS\<lparr>minLength := 8\<rparr>"

fun PASSWORD_CONFIGS :: "UserType \<Rightarrow> PasswordRequirements" where
  "PASSWORD_CONFIGS Customer = CUSTOMER_PASSWORD_REQUIREMENTS"
| "PASSWORD_CONFIGS Admin = ADMIN_PASSWORD_REQUIREMENTS"
| "PASSWORD_CONFIGS Technician = ADMIN_PASSWORD_REQUIREMENTS"
| "PASSWORD_CONFIGS Supervisor = ADMIN_PASSWORD_REQUIREMENTS"
| "PASSWORD_CONFIGS Manager = ADMIN_PASSWORD_REQUIREMENTS"

text \<open>A complete policy handed over where options are expected: every key is present.\<close>

definition asOptions :: "PasswordRequirements \<Rightarrow> PartialPasswordRequirements" where
  "asOptions config =
     \<lparr>minLengthOpt = Some (minLength config), maxLengthOpt = Some (maxLength config),
      requireUppercaseOpt = Some (requireUppercase config),
      requireLowercaseOpt = Some (requireLowercase config),
      requireNumbersOpt = Some (requireNumbers config),
      requireSpecialCharsOpt = Some (requireSpecialChars config),
      preventCommonPasswordsOpt = Some (preventCommonPasswords config)\<rparr>"

text \<open>The second argument of the hook: \<open>Partial<PasswordRequirements> | UserType\<close>.\<close>

datatype hookOptions = Options PartialPasswordRequirements | ForUserType UserType

fun resolvedOptions :: "hookOptions \<Rightarrow> PartialPasswordRequirements" where
  "resolvedOptions (ForUserType t) = asOptions (PASSWORD_CONFIGS t)"
| "resolvedOptions (Options options) = options"

text \<open>\<open>String.prototype.trim\<close>; the white space and line terminators below \<open>0x100\<close>.\<close>

definition isWhiteSpace :: "char \<Rightarrow> bool" where
  "isWhiteSpace c =
     (c \<in> set [CHR 0x09, CHR 0x0A, CHR 0x0B, CHR 0x0C, CHR 0x0D, CHR 0x20, CHR 0xA0])"

definition trim :: "string \<Rightarrow> string" where
  "trim s = rev (dropWhile isWhiteSpace (rev (dropWhile isWhiteSpace s)))"

text \<open>
  The state of one hook instance: the two \<open>useState\<close> cells, and the pending
  \<open>setTimeout\<close> callback with the \<open>password\<close> and \<open>resolvedOptions\<close> it has captured.
  \<open>evaluated\<close> records the passwords the hook has passed to \<open>validatePasswordStrength\<close>.
\<close>

record hookState =
  validation :: "ValidationResult option"
  isValidating :: bool
  timer :: "(string \<times> PartialPasswordRequirements) option"
  evaluated :: "string list"

definition initialHook :: hookState where
  "initialHook = \<lparr>validation = None, isValidating = False, timer = None, evaluated = []\<rparr>"

text \<open>
  The effect runs for new \<open>[password, resolvedOptions]\<close>: first the cleanup of the
  previous run (\<open>clearTimeout\<close>), then the body.
\<close>

definition passwordEffect :: "string \<Rightarrow> hookOptions \<Rightarrow> hookState \<Rightarrow> hookState" where
  "passwordEffect password options h =
     (let h1 = h\<lparr>timer := None\<rparr>
      in if password = [] \<or> trim password = []
         then h1\<lparr>validation := None, isValidating := False\<rparr>
         else h1\<lparr>isValidating := True, timer := Some (password, resolvedOptions options)\<rparr>)"

text \<open>The callback of \<open>setTimeout(..., 300)\<close> runs, if one is pending.\<close>

definition timerFires :: "hookState \<Rightarrow> hookState" where
  "timerFires h =
     (case timer h of
        None \<Rightarrow> h
      | Some (password, options) \<Rightarrow>
          h\<lparr>validation := Some (validatePasswordStrength (JSString password) options),
            isValidating := False, timer := None, evaluated := evaluated h @ [password]\<rparr>)"

record PasswordValidationState =
  stateValidation :: "ValidationResult option"
  stateIsValidating :: bool
  stateIsValid :: bool
  stateStrength :: PasswordStrength
  stateScore :: int
  stateFeedback :: "string list"
  stateRequirements :: "ValidationRequirement list"
  hasError :: bool
  isStrong :: bool
  isVeryStrong :: bool
  meetsMinimum :: bool

text \<open>The object the hook returns at a render.\<close>

definition usePasswordValidation :: "hookState \<Rightarrow> PasswordValidationState" where
  "usePasswordValidation h =
     \<lparr>stateValidation = validation h,
      stateIsValidating = isValidating h,
      stateIsValid = (case validation h of None \<Rightarrow> False | Some v \<Rightarrow> isValid v \<or> False),
      stateStrength = (case validation h of None \<Rightarrow> VeryWeak | Some v \<Rightarrow> strength v),
      stateScore = (case validation h of None \<Rightarrow> 0 | Some v \<Rightarrow> if score v = 0 then 0 else score v),
      stateFeedback = (case validation h of None \<Rightarrow> [] | Some v \<Rightarrow> feedback v),
      stateRequirements = (case validation h of None \<Rightarrow> [] | Some v \<Rightarrow> requirements v),
      hasError = (case validation h of None \<Rightarrow> False | Some v \<Rightarrow> \<not> isValid v),
      isStrong = (case validation h of None \<Rightarrow> False | Some v \<Rightarrow> strength v = Strong),
      isVeryStrong = (case validation h of None \<Rightarrow> False | Some v \<Rightarrow> strength v = VeryStrong),
      meetsMinimum = (case validation h of None \<Rightarrow> False | Some v \<Rightarrow> isValid v \<or> False)\<rparr>"

datatype hookEvent = Effect string hookOptions | Timeout

fun hookStep :: "hookEvent \<Rightarrow> hookState \<Rightarrow> hookState" where
  "hookStep (Effect password options) h = passwordEffect password options h"
| "hookStep Timeout h = timerFires h"

definition runHook :: "hookEvent list \<Rightarrow> hookState \<Rightarrow> hookState" where
  "runHook events h = fold hookStep events h"

section \<open>Secure password generator (\<open>generateSecurePassword\<close>)\<close>

text \<open>
  A call returns a value, throws, or is still drawing random numbers when the supplied
  output of the random source is used up.
\<close>

datatype 'a result = Ok 'a | Throw string | Exhausted

fun andThen :: "'a result \<Rightarrow> ('a \<Rightarrow> 'b result) \<Rightarrow> 'b result" where
  "andThen (Ok x) f = f x"
| "andThen (Throw m) f = Throw m"
| "andThen Exhausted f = Exhausted"

text \<open>A value of \<open>Math.random()\<close>: a number from 0 (inclusive) to 1 (exclusive).\<close>

typedef unitInterval = "{u :: real. 0 \<le> u \<and> u < 1}"
  by (rule exI [of _ 0]) simp

setup_lifting type_definition_unitInterval

lift_definition zeroUnit :: unitInterval is 0
  by simp

lift_definition halfUnit :: unitInterval is "1 / 2"
  by simp

text \<open>
  The random source that \<open>getWebCrypto\<close> selects, with the values it goes on to deliver:
  the words \<open>getRandomValues\<close> writes to \<open>buf[0]\<close>, or the results of \<open>Math.random()\<close>
  when there is no Web Crypto.
\<close>

datatype randomSource = WebCrypto "32 word list" | MathRandom "unitInterval list"

text \<open>The \<open>do ... while (x >= limit)\<close> loop of \<open>secureRandomInt\<close>.\<close>

fun drawBelow :: "nat \<Rightarrow> 32 word list \<Rightarrow> (nat \<times> 32 word list) result" where
  "drawBelow limit [] = Exhausted"
| "drawBelow limit (x # xs) = (if unat x \<ge> limit then drawBelow limit xs else Ok (unat x, xs))"

text \<open>
  \<open>limit = Math.floor((maxUint32 + 1) / maxExclusive) * maxExclusive\<close>; for the bounds
  that occur (at most 87) the double arithmetic is exact.
\<close>

definition limitFor :: "nat \<Rightarrow> nat" where
  "limitFor maxExclusive = (4294967296 div maxExclusive) * maxExclusive"

definition secureRandomInt :: "nat \<Rightarrow> 32 word list \<Rightarrow> (nat \<times> 32 word list) result" where
  "secureRandomInt maxExclusive ws =
     (if maxExclusive \<le> 0 then Throw ''maxExclusive must be > 0''
      else
        let limit = limitFor maxExclusive
        in andThen (drawBelow limit ws) (\<lambda>(x, ws'). Ok (x mod maxExclusive, ws')))"

text \<open>
  One random index below \<open>n\<close>: \<open>secureRandomInt(n, cryptoObj)\<close> with Web Crypto,
  \<open>Math.floor(Math.random() * n)\<close> without. The product is a double; rounding it keeps
  it below \<open>n\<close>, and the model takes the exact product.
\<close>

fun randomIndex :: "nat \<Rightarrow> randomSource \<Rightarrow> (nat \<times> randomSource) result" where
  "randomIndex n (WebCrypto ws) =
     andThen (secureRandomInt n ws) (\<lambda>(j, ws'). Ok (j, WebCrypto ws'))"
| "randomIndex n (MathRandom []) = Exhausted"
| "randomIndex n (MathRandom (u # us)) =
     Ok (nat \<lfloor>Rep_unitInterval u * real n\<rfloor>, MathRandom us)"

text \<open>\<open>pick(pool)\<close>; the index is below the length of the pool, so the read is in range.\<close>

definition pick :: "string \<Rightarrow> randomSource \<Rightarrow> (char \<times> randomSource) result" where
  "pick pool src = andThen (randomIndex (length pool) src) (\<lambda>(j, src'). Ok (pool ! j, src'))"

definition uppercase :: string where
  "uppercase = ''ABCDEFGHIJKLMNOPQRSTUVWXYZ''"

definition lowercase :: string where
  "lowercase = ''abcdefghijklmnopqrstuvwxyz''"

definition numbers :: string where
  "numbers = ''0123456789''"

definition special :: string where
  "special = ''!@#$%^&*()_-=[]{}|;:,.<>?''"

definition allChars :: string where
  "allChars = uppercase @ lowercase @ numbers @ special"

text \<open>\<open>while (chars.length < 12) chars.push(pick(allChars));\<close>\<close>

function fill :: "string \<Rightarrow> randomSource \<Rightarrow> (string \<times> randomSource) result" where
  "fill chars src =
     (if length chars < 12
      then (case pick allChars src of
              Ok (c, src') \<Rightarrow> fill (chars @ [c]) src'
            | Throw m \<Rightarrow> Throw m
            | Exhausted \<Rightarrow> Exhausted)
      else Ok (chars, src))"
  by pat_completeness auto
termination
  by (relation "measure (\<lambda>(chars, src). 12 - length chars)") auto

declare fill.simps [simp del]

text \<open>\<open>[arr[i], arr[j]] = [arr[j], arr[i]]\<close>\<close>

definition swap :: "nat \<Rightarrow> nat \<Rightarrow> 'a list \<Rightarrow> 'a list" where
  "swap i j arr = arr[i := arr ! j, j := arr ! i]"

text \<open>
  The Fisher-Yates loop \<open>for (let i = arr.length - 1; i > 0; i--)\<close>, from index \<open>i\<close>
  down: \<open>secureShuffle\<close> with Web Crypto and the loop in the function body without are
  the same loop over the two ways to draw \<open>j\<close> below \<open>i + 1\<close>.
\<close>

function shuffleFrom :: "nat \<Rightarrow> 'a list \<Rightarrow> randomSource \<Rightarrow> ('a list \<times> randomSource) result" where
  "shuffleFrom i arr src =
     (if i > 0
      then (case randomIndex (i + 1) src of
              Ok (j, src') \<Rightarrow> shuffleFrom (i - 1) (swap i j arr) src'
            | Throw m \<Rightarrow> Throw m
            | Exhausted \<Rightarrow> Exhausted)
      else Ok (arr, src))"
  by pat_completeness auto
termination
  by (relation "measure (\<lambda>(i, arr, src). i)") auto

declare shuffleFrom.simps [simp del]

definition shuffle :: "'a list \<Rightarrow> randomSource \<Rightarrow> ('a list \<times> randomSource) result" where
  "shuffle arr src = shuffleFrom (length arr - 1) arr src"

definition generateSecurePassword :: "randomSource \<Rightarrow> string result" where
  "generateSecurePassword src =
     andThen (pick uppercase src) (\<lambda>(c1, src1).
     andThen (pick lowercase src1) (\<lambda>(c2, src2).
     andThen (pick numbers src2) (\<lambda>(c3, src3).
     andThen (pick special src3) (\<lambda>(c4, src4).
     andThen (fill [c1, c2, c3, c4] src4) (\<lambda>(chars, src5).
     andThen (shuffle chars src5) (\<lambda>(shuffled, src6). Ok shuffled))))))"


section \<open>Notions used in the statements\<close>

subsection \<open>The validator\<close>

text \<open>Every entry of the returned checklist that is required is met.\<close>

definition allRequiredMet :: "ValidationResult \<Rightarrow> bool" where
  "allRequiredMet r = (\<forall>q \<in> set (requirements r). required q \<longrightarrow> met q)"

text \<open>The hard requirements of a policy; no pattern heuristic occurs among them.\<close>

definition hardRequirements :: "PasswordRequirements \<Rightarrow> string \<Rightarrow> bool" where
  "hardRequirements config password =
     (int (length password) \<ge> minLength config \<and> int (length password) \<le> maxLength config
      \<and> (requireUppercase config \<longrightarrow> uppercaseTest password)
      \<and> (requireLowercase config \<longrightarrow> lowercaseTest password)
      \<and> (requireNumbers config \<longrightarrow> numbersTest password)
      \<and> (requireSpecialChars config \<longrightarrow> specialCharsTest password)
      \<and> (preventCommonPasswords config \<longrightarrow> toLowerCase password \<notin> set COMMON_PASSWORDS))"

text \<open>The warnings of the three pattern heuristics that match, in the order of the source.\<close>

definition warningsFor :: "string \<Rightarrow> string list" where
  "warningsFor password =
     (if commonSequenceTest password then [msgSequence] else [])
     @ (if repeatedCharsTest password then [msgRepeated] else [])
     @ (if keyboardTest password then [msgKeyboard] else [])"

text \<open>The bonus points for length and diversity, as the code adds them.\<close>

definition bonusPoints :: "string \<Rightarrow> int" where
  "bonusPoints password =
     scoreVar (diversityBonus password
       (lengthBonus password \<lparr>feedbackVar = [], scoreVar = 0, isValidVar = True\<rparr>))"

text \<open>The options object \<open>{}\<close>.\<close>

definition noOptions :: PartialPasswordRequirements where
  "noOptions =
     \<lparr>minLengthOpt = None, maxLengthOpt = None, requireUppercaseOpt = None,
      requireLowercaseOpt = None, requireNumbersOpt = None, requireSpecialCharsOpt = None,
      preventCommonPasswordsOpt = None\<rparr>"

subsection \<open>The token store and the pipeline\<close>

text \<open>A request after \<open>originalRequest._retry = true\<close>, and a request whose
  \<open>Authorization\<close> header has been set to a token.\<close>

definition marked :: "request \<Rightarrow> request" where
  "marked config = config\<lparr>retry := True\<rparr>"

definition withBearer :: "string \<Rightarrow> request \<Rightarrow> request" where
  "withBearer token config = config\<lparr>authorization := Some (bearer token)\<rparr>"

text \<open>The response to a request comes back with status 401.\<close>

definition unauthorized :: "request \<Rightarrow> event" where
  "unauthorized config = ResponseError (AxiosError (Some 401) config)"

definition alreadyRetried :: "error \<Rightarrow> bool" where
  "alreadyRetried err = (case err of AxiosError status config \<Rightarrow> retry config | Error m \<Rightarrow> False)"

text \<open>The state \<open>Idle\<close>: no refresh in flight, nothing queued.\<close>

definition idle :: "pipeline \<Rightarrow> bool" where
  "idle st = (\<not> isRefreshing st \<and> pendingQueue st = [] \<and> suspended st = None)"

definition initialPipeline :: pipeline where
  "initialPipeline =
     \<lparr>storedToken = None, capturedToken = None, isRefreshing = False, pendingQueue = [],
      suspended = None, refreshCalls = 0, outgoing = [], network = [], rejections = []\<rparr>"

text \<open>A session after login with the token \<open>T1\<close>, a request that was sent with it, and
  a request that a caller is about to issue.\<close>

definition sessionT1 :: pipeline where
  "sessionT1 = initialPipeline\<lparr>storedToken := Some ''T1'', capturedToken := Some ''T1''\<rparr>"

definition failedRequest :: "nat \<Rightarrow> request" where
  "failedRequest n = \<lparr>requestId = n, retry = False, authorization = Some (bearer ''T1'')\<rparr>"

definition newRequest :: "nat \<Rightarrow> request" where
  "newRequest n = \<lparr>requestId = n, retry = False, authorization = None\<rparr>"

subsection \<open>The hook and the generator\<close>

text \<open>The test \<open>!password || password.trim() === ''\<close> of the hook.\<close>

definition blank :: "string \<Rightarrow> bool" where
  "blank password = (password = [] \<or> trim password = [])"

text \<open>No blank password has been evaluated, and none is waiting for the timer.\<close>

definition hookInvariant :: "hookState \<Rightarrow> bool" where
  "hookInvariant h =
     (list_all (\<lambda>p. \<not> blank p) (evaluated h)
      \<and> (case timer h of None \<Rightarrow> True | Some (p, options) \<Rightarrow> \<not> blank p))"




section \<open>Properties of the password validator\<close>

lemmas string_eval =
  code_def inRange_def isUpperCaseLetter_def toLowerCaseChar_def toLowerCase_def foldAscii_def
  testAlternatives_def uppercaseTest_def lowercaseTest_def numbersTest_def specialCharClass_def
  specialCharsTest_def commonSequenceTest_def lineTerminator_def keyboardTest_def
  COMMON_PASSWORDS_def uniqueChars_def

lemmas config_eval =
  spread_def DEFAULT_PASSWORD_REQUIREMENTS_def noOptions_def numberToString_def
  natToString.simps

lemmas validator_eval =
  validatePasswordStrength_def hardChecks_def softChecks_def lengthValidation_def
  maxLengthValidation_def uppercaseCheck_def lowercaseCheck_def numbersCheck_def
  specialCharsCheck_def commonPasswordCheck_def sequenceWarning_def repeatedWarning_def
  keyboardWarning_def lengthBonus_def diversityBonus_def getRequirementsList_def
  getPasswordStrength_def Let_def

text \<open>Every policy is the result of merging some options into the defaults.\<close>

lemma spread_onto:
  "\<exists>options. spread DEFAULT_PASSWORD_REQUIREMENTS options = (config :: PasswordRequirements)"
proof
  show "spread DEFAULT_PASSWORD_REQUIREMENTS
          \<lparr>minLengthOpt = Some (minLength config), maxLengthOpt = Some (maxLength config),
           requireUppercaseOpt = Some (requireUppercase config),
           requireLowercaseOpt = Some (requireLowercase config),
           requireNumbersOpt = Some (requireNumbers config),
           requireSpecialCharsOpt = Some (requireSpecialChars config),
           preventCommonPasswordsOpt = Some (preventCommonPasswords config)\<rparr> = config"
    by (simp add: spread_def)
qed

lemma isValidVar_steps [simp]:
  "isValidVar (hardFailure m v) = False"
  "isValidVar (addScore n v) = isValidVar v"
  "isValidVar (warning m v) = isValidVar v"
  by (simp_all add: hardFailure_def addScore_def warning_def)

lemma scoreVar_steps [simp]:
  "scoreVar (hardFailure m v) = scoreVar v"
  "scoreVar (addScore n v) = scoreVar v + n"
  "scoreVar (warning m v) = scoreVar v - 10"
  by (simp_all add: hardFailure_def addScore_def warning_def)

lemma feedbackVar_steps [simp]:
  "feedbackVar (hardFailure m v) = feedbackVar v @ [m]"
  "feedbackVar (addScore n v) = feedbackVar v"
  "feedbackVar (warning m v) = feedbackVar v @ [m]"
  by (simp_all add: hardFailure_def addScore_def warning_def)

lemma isValidVar_hardChecks:
  "isValidVar (hardChecks config password) = hardRequirements config password"
  unfolding hardChecks_def hardRequirements_def
  by (simp add: commonPasswordCheck_def specialCharsCheck_def numbersCheck_def
      lowercaseCheck_def uppercaseCheck_def maxLengthValidation_def lengthValidation_def)

lemma isValidVar_softChecks: "isValidVar (softChecks password v) = isValidVar v"
  by (simp add: softChecks_def diversityBonus_def lengthBonus_def keyboardWarning_def
      repeatedWarning_def sequenceWarning_def Let_def)

lemma feedbackVar_softChecks:
  "feedbackVar (softChecks password v) = feedbackVar v @ warningsFor password"
  by (simp add: softChecks_def diversityBonus_def lengthBonus_def keyboardWarning_def
      repeatedWarning_def sequenceWarning_def warningsFor_def Let_def)

lemma scoreVar_softChecks:
  "scoreVar (softChecks password v) =
     scoreVar v - 10 * int (length (warningsFor password)) + bonusPoints password"
  by (simp add: softChecks_def diversityBonus_def lengthBonus_def keyboardWarning_def
      repeatedWarning_def sequenceWarning_def warningsFor_def bonusPoints_def Let_def)

lemma requirements_met:
  "(\<forall>q \<in> set (getRequirementsList password config). required q \<longrightarrow> met q) =
     (int (length password) \<ge> minLength config
      \<and> (requireUppercase config \<longrightarrow> uppercaseTest password)
      \<and> (requireLowercase config \<longrightarrow> lowercaseTest password)
      \<and> (requireNumbers config \<longrightarrow> numbersTest password)
      \<and> (requireSpecialChars config \<longrightarrow> specialCharsTest password)
      \<and> (preventCommonPasswords config \<longrightarrow> toLowerCase password \<notin> set COMMON_PASSWORDS))"
  by (auto simp add: getRequirementsList_def)

text \<open>
  Claim C2, as stated: \<open>isValid\<close> is true exactly when every required entry of the
  returned checklist is met. It fails for a password longer than \<open>maxLength\<close>: the
  over-length check clears \<open>isValid\<close>, and the checklist has no entry for it. Here the
  policy is the default one with \<open>maxLength: 8\<close> and the password has nine characters.
\<close>

theorem isValid_iff_allRequiredMet_counterexample:
  "\<not> (isValid (validatePasswordStrength (JSString ''Abcdefg1!'')
                (noOptions\<lparr>maxLengthOpt := Some 8\<rparr>))
      \<longleftrightarrow> allRequiredMet (validatePasswordStrength (JSString ''Abcdefg1!'')
                (noOptions\<lparr>maxLengthOpt := Some 8\<rparr>)))"
  by (simp add: allRequiredMet_def validator_eval config_eval string_eval)

text \<open>
  Claim C2, amended: for every password string and every policy, \<open>isValid\<close> is true
  exactly when the password is not empty, is not longer than \<open>maxLength\<close>, and every
  required entry of the returned checklist is met.
\<close>

theorem isValid_iff_allRequiredMet_within_maxLength:
  "isValid (validatePasswordStrength (JSString password) options) =
     (password \<noteq> []
      \<and> int (length password) \<le> maxLength (spread DEFAULT_PASSWORD_REQUIREMENTS options)
      \<and> allRequiredMet (validatePasswordStrength (JSString password) options))"
  unfolding allRequiredMet_def
  by (auto simp add: validatePasswordStrength_def Let_def isValidVar_softChecks
      isValidVar_hardChecks requirements_met hardRequirements_def)

theorem isValid_iff_allRequiredMet_within_maxLength_witness:
  "requirements (validatePasswordStrength (JSString ''Ab1!Ab1!'') noOptions) \<noteq> []
   \<and> allRequiredMet (validatePasswordStrength (JSString ''Ab1!Ab1!'') noOptions)
   \<and> isValid (validatePasswordStrength (JSString ''Ab1!Ab1!'') noOptions)"
proof -
  have r: "requirements (validatePasswordStrength (JSString ''Ab1!Ab1!'') noOptions) \<noteq> []"
    by (simp add: validatePasswordStrength_def getRequirementsList_def config_eval Let_def)
  have m: "allRequiredMet (validatePasswordStrength (JSString ''Ab1!Ab1!'') noOptions)"
    by (simp add: allRequiredMet_def validatePasswordStrength_def getRequirementsList_def
        config_eval string_eval Let_def)
  have l: "int (length ''Ab1!Ab1!'') \<le> maxLength (spread DEFAULT_PASSWORD_REQUIREMENTS noOptions)"
    by (simp add: config_eval)
  from r m l isValid_iff_allRequiredMet_within_maxLength [of "''Ab1!Ab1!''" noOptions]
  show ?thesis by simp
qed

text \<open>
  Claim C6: for every policy, an empty or non-string password gives the fixed result
  \<open>isValid = false\<close>, \<open>score = 0\<close>, strength \<open>'invalid'\<close> and the one feedback message
  \<open>'Password is required'\<close>; no length, character-class, common-password or pattern rule
  adds feedback or score.
\<close>

theorem empty_password_short_circuits:
  "validatePasswordStrength NotAString options =
     \<lparr>isValid = False, score = 0, strength = Invalid, feedback = [''Password is required''],
      requirements = getRequirementsList '''' (spread DEFAULT_PASSWORD_REQUIREMENTS options)\<rparr>
   \<and> validatePasswordStrength (JSString '''') options =
     \<lparr>isValid = False, score = 0, strength = Invalid, feedback = [''Password is required''],
      requirements = getRequirementsList '''' (spread DEFAULT_PASSWORD_REQUIREMENTS options)\<rparr>"
  by (simp add: validatePasswordStrength_def)

text \<open>
  Claim C8: for every non-empty password and every policy, \<open>isValid\<close> is decided by the
  hard requirements alone; each pattern heuristic that matches (sequence, repeated
  characters, keyboard run) appends its warning after the hard-failure messages and takes
  10 points off the score before the bonus points and the clamp at 0.
\<close>

theorem pattern_warnings_are_soft:
  assumes "password \<noteq> []"
  shows "isValid (validatePasswordStrength (JSString password) options) =
           hardRequirements (spread DEFAULT_PASSWORD_REQUIREMENTS options) password
         \<and> feedback (validatePasswordStrength (JSString password) options) =
             (if feedbackVar (hardChecks (spread DEFAULT_PASSWORD_REQUIREMENTS options) password)
                   @ warningsFor password = []
              then [''Password meets all requirements'']
              else feedbackVar (hardChecks (spread DEFAULT_PASSWORD_REQUIREMENTS options) password)
                   @ warningsFor password)
         \<and> score (validatePasswordStrength (JSString password) options) =
             max 0 (scoreVar (hardChecks (spread DEFAULT_PASSWORD_REQUIREMENTS options) password)
                    - 10 * int (length (warningsFor password)) + bonusPoints password)"
  using assms
  by (simp add: validatePasswordStrength_def Let_def isValidVar_softChecks isValidVar_hardChecks
      feedbackVar_softChecks scoreVar_softChecks)

theorem pattern_warnings_are_soft_witness:
  "''Abc111qwe!'' \<noteq> []
   \<and> warningsFor ''Abc111qwe!'' = [msgSequence, msgRepeated, msgKeyboard]
   \<and> isValid (validatePasswordStrength (JSString ''Abc111qwe!'') noOptions)
   \<and> score (validatePasswordStrength (JSString ''Abc111qwe!'') noOptions) = 50"
proof -
  have w: "warningsFor ''Abc111qwe!'' = [msgSequence, msgRepeated, msgKeyboard]"
    by (simp add: warningsFor_def string_eval)
  have h: "hardRequirements (spread DEFAULT_PASSWORD_REQUIREMENTS noOptions) ''Abc111qwe!''"
    by (simp add: hardRequirements_def config_eval string_eval)
  have s: "scoreVar (hardChecks (spread DEFAULT_PASSWORD_REQUIREMENTS noOptions) ''Abc111qwe!'') = 70"
    by (simp add: validator_eval config_eval string_eval)
  have b: "bonusPoints ''Abc111qwe!'' = 10"
    by (simp add: bonusPoints_def lengthBonus_def diversityBonus_def string_eval)
  from pattern_warnings_are_soft [of "''Abc111qwe!''" noOptions] w h s b
  show ?thesis by simp
qed

text \<open>
  Claim C9: for every password value and every policy, the score of the result is at
  least 0.
\<close>

theorem score_nonnegative: "score (validatePasswordStrength pw options) \<ge> 0"
  by (cases pw) (simp_all add: validatePasswordStrength_def Let_def)

section \<open>Properties of the session token store\<close>

text \<open>
  Claim C5, as stated: \<open>isAuthenticated\<close> is true exactly when the stored token is not
  \<open>null\<close>, also after \<open>set('')\<close>. It fails there: \<open>Boolean('')\<close> is false, so with
  the empty string stored the token is not \<open>null\<close> and \<open>isAuthenticated\<close> is false.
\<close>

theorem isAuthenticated_iff_not_null_counterexample:
  "\<not> (isAuthenticated (AuthProvider (setAccessToken (Some '''') None))
      \<longleftrightarrow> accessToken (AuthProvider (setAccessToken (Some '''') None)) \<noteq> None)"
  by (simp add: AuthProvider_def Boolean_def setAccessToken_def)

text \<open>
  Claim C5, amended: for every state of the store, \<open>isAuthenticated\<close> is true exactly
  when the stored token is neither \<open>null\<close> nor the empty string; after \<open>set(t)\<close> for a
  string \<open>t\<close> it is true exactly when \<open>t\<close> is not empty, and after \<open>logout\<close> it is
  false.
\<close>

theorem isAuthenticated_iff_nonempty_token:
  "isAuthenticated (AuthProvider st) = (st \<noteq> None \<and> st \<noteq> Some [])
   \<and> isAuthenticated (AuthProvider (setAccessToken (Some t) st)) = (t \<noteq> [])
   \<and> isAuthenticated (AuthProvider (logout st)) = False"
  by (cases st) (simp_all add: AuthProvider_def Boolean_def setAccessToken_def logout_def)

section \<open>Properties of the request pipeline\<close>

lemmas pipeline_eval =
  run_def unauthorized_def onRejected_def refreshFulfilled_def refreshRejected_def
  processQueue_def processEntry_def resolveEntry_def rejectEntry_def http_def dispatch_def
  requestInterceptor_def getAccessToken_def registeredSetter_def registerTokenAccess_def
  setAccessToken_def bearer_def marked_def withBearer_def idle_def initialPipeline_def
  sessionT1_def failedRequest_def newRequest_def

subsection \<open>Draining the queue\<close>

lemma fold_processEntry_reject:
  "fold (processEntry (Some e) token) q s = s\<lparr>rejections := rejections s @ map (\<lambda>r. (r, e)) q\<rparr>"
  by (induction q arbitrary: s) (simp_all add: processEntry_def rejectEntry_def)

lemma fold_processEntry_noToken:
  "fold (processEntry None (Some [])) q s =
     s\<lparr>rejections := rejections s @ map (\<lambda>r. (r, Error ''No token available'')) q\<rparr>"
  by (induction q arbitrary: s) (simp_all add: processEntry_def rejectEntry_def)

lemma fold_processEntry_resolve:
  "token \<noteq> [] \<Longrightarrow>
   fold (processEntry None (Some token)) q s =
     s\<lparr>outgoing := outgoing s @ map (withBearer token) q\<rparr>"
  by (induction q arbitrary: s)
    (simp_all add: processEntry_def resolveEntry_def http_def withBearer_def)

lemma refreshFulfilled_token:
  assumes "token \<noteq> []" "suspended s = Some r0"
  shows "refreshFulfilled token s =
     s\<lparr>storedToken := Some token, pendingQueue := [],
       outgoing := outgoing s @ map (withBearer token) (pendingQueue s @ [r0]),
       isRefreshing := False, suspended := None\<rparr>"
  using assms
  by (simp add: refreshFulfilled_def registeredSetter_def setAccessToken_def processQueue_def
      fold_processEntry_resolve http_def withBearer_def)

lemma refreshFulfilled_empty:
  assumes "suspended s = Some r0"
  shows "refreshFulfilled [] s =
     s\<lparr>storedToken := Some [], pendingQueue := [],
       rejections := rejections s @ map (\<lambda>r. (r, Error ''No token available'')) (pendingQueue s),
       outgoing := outgoing s @ [withBearer [] r0],
       isRefreshing := False, suspended := None\<rparr>"
  using assms
  by (simp add: refreshFulfilled_def registeredSetter_def setAccessToken_def processQueue_def
      fold_processEntry_noToken http_def withBearer_def)

lemma refreshRejected_state:
  assumes "suspended s = Some r0"
  shows "refreshRejected e s =
     s\<lparr>storedToken := None, pendingQueue := [],
       rejections := rejections s @ map (\<lambda>r. (r, e)) (pendingQueue s @ [r0]),
       isRefreshing := False, suspended := None\<rparr>"
  using assms
  by (simp add: refreshRejected_def registeredSetter_def setAccessToken_def processQueue_def
      fold_processEntry_reject)

subsection \<open>The header a request leaves with\<close>

text \<open>
  The request interceptor overwrites the \<open>Authorization\<close> header with the token its
  getter returns, when that is a non-empty string, and leaves the header as it is
  otherwise.
\<close>

lemma requestInterceptor_authorization:
  "requestInterceptor st config =
     (if Boolean (capturedToken st) then withBearer (the (capturedToken st)) config else config)"
  by (simp add: requestInterceptor_def getAccessToken_def Boolean_def withBearer_def
      split: option.splits)

text \<open>
  A replay after a refresh, in a session whose getter still returns the old token
  \<open>T1\<close>: the handler stores \<open>T2\<close> and sets \<open>Bearer T2\<close>, and the interceptor puts
  \<open>Bearer T1\<close> back. Once \<open>AuthProvider\<close> has registered its accessors anew, the replay
  leaves with \<open>Bearer T2\<close>.
\<close>

lemma replay_before_registration:
  "network (run [unauthorized (failedRequest 1), RefreshFulfilled ''T2'', Dispatch] sessionT1) =
     [\<lparr>requestId = 1, retry = True, authorization = Some ''Bearer T1''\<rparr>]"
  by (simp add: pipeline_eval)

lemma replay_after_registration:
  "network (run [unauthorized (failedRequest 1), RefreshFulfilled ''T2'', Registers, Dispatch]
             sessionT1) =
     [\<lparr>requestId = 1, retry = True, authorization = Some ''Bearer T2''\<rparr>]"
  by (simp add: pipeline_eval)

subsection \<open>Authorization failures that arrive together\<close>

lemma run_unauthorized_while_refreshing:
  "isRefreshing s \<Longrightarrow> \<forall>c \<in> set cs. \<not> retry c \<Longrightarrow>
   run (map unauthorized cs) s = s\<lparr>pendingQueue := pendingQueue s @ map marked cs\<rparr>"
  by (induction cs arbitrary: s) (simp_all add: run_def unauthorized_def onRejected_def marked_def)

lemma run_unauthorized_idle:
  assumes "\<not> isRefreshing s" "\<forall>c \<in> set (c0 # cs). \<not> retry c"
  shows "run (map unauthorized (c0 # cs)) s =
     s\<lparr>isRefreshing := True, suspended := Some (marked c0), refreshCalls := refreshCalls s + 1,
       pendingQueue := pendingQueue s @ map marked cs\<rparr>"
proof -
  let ?s1 = "s\<lparr>isRefreshing := True, suspended := Some (marked c0),
                refreshCalls := refreshCalls s + 1\<rparr>"
  have "run (map unauthorized (c0 # cs)) s = run (map unauthorized cs) ?s1"
    using assms by (simp add: run_def unauthorized_def onRejected_def marked_def)
  also have "\<dots> = ?s1\<lparr>pendingQueue := pendingQueue ?s1 @ map marked cs\<rparr>"
    using assms by (intro run_unauthorized_while_refreshing) simp_all
  finally show ?thesis by simp
qed

text \<open>
  Claim C1, as stated: on refresh success every queued continuation is resolved with the
  new token. It fails when the refresh endpoint answers with an empty \<open>access_token\<close>:
  \<open>processQueue\<close> tests \<open>token\<close> for truth, so the queued continuation of request 2 is
  rejected with \<open>No token available\<close> although the refresh succeeded (and request 1, which
  started the refresh, is handed to \<open>http\<close> again).
\<close>

theorem queued_resolved_on_success_counterexample:
  "run [unauthorized (failedRequest 1), unauthorized (failedRequest 2), RefreshFulfilled '''']
       sessionT1 =
     sessionT1\<lparr>storedToken := Some '''', refreshCalls := 1,
       rejections := [(\<lparr>requestId = 2, retry = True, authorization = Some ''Bearer T1''\<rparr>,
                       Error ''No token available'')],
       outgoing := [\<lparr>requestId = 1, retry = True, authorization = Some ''Bearer ''\<rparr>]\<rparr>"
  by (simp add: pipeline_eval)

text \<open>
  Claim C1, amended: when \<open>k \<ge> 1\<close> authorization failures (401, not yet retried) reach
  the idle pipeline before the refresh has answered, exactly one refresh call is made,
  the first request waits for it and the others are queued in order. If the refresh
  then succeeds with a non-empty token, the token is stored and every queued request and
  then the first one is handed to \<open>http\<close> once more with that token in its
  \<open>Authorization\<close> header, and nothing is rejected; if it succeeds with an empty token,
  every queued continuation is rejected with \<open>No token available\<close>; if it fails, every
  queued continuation and the first request are rejected with the refresh error, nothing
  is handed to \<open>http\<close>, and the token store is cleared. In each case the queue is drained
  in one go, and the pipeline is idle again with an empty queue.
\<close>

theorem single_flight_refresh:
  assumes "idle st" and "\<forall>c \<in> set (c0 # cs). \<not> retry c"
  shows "refreshCalls (run (map unauthorized (c0 # cs)) st) = refreshCalls st + 1
    \<and> isRefreshing (run (map unauthorized (c0 # cs)) st)
    \<and> pendingQueue (run (map unauthorized (c0 # cs)) st) = map marked cs
    \<and> (token \<noteq> [] \<longrightarrow>
         run (map unauthorized (c0 # cs) @ [RefreshFulfilled token]) st =
           st\<lparr>storedToken := Some token, refreshCalls := refreshCalls st + 1,
              outgoing := outgoing st @ map (withBearer token) (map marked (cs @ [c0]))\<rparr>)
    \<and> refreshCalls (run (map unauthorized (c0 # cs) @ [RefreshFulfilled []]) st) =
         refreshCalls st + 1
    \<and> idle (run (map unauthorized (c0 # cs) @ [RefreshFulfilled []]) st)
    \<and> rejections (run (map unauthorized (c0 # cs) @ [RefreshFulfilled []]) st) =
         rejections st @ map (\<lambda>r. (r, Error ''No token available'')) (map marked cs)
    \<and> run (map unauthorized (c0 # cs) @ [RefreshRejected refreshErr]) st =
         st\<lparr>storedToken := None, refreshCalls := refreshCalls st + 1,
            rejections := rejections st @ map (\<lambda>r. (r, refreshErr)) (map marked (cs @ [c0]))\<rparr>"
proof -
  let ?s1 = "run (map unauthorized (c0 # cs)) st"
  have i: "\<not> isRefreshing st" "pendingQueue st = []" "suspended st = None"
    using assms(1) by (simp_all add: idle_def)
  have s1: "?s1 = st\<lparr>isRefreshing := True, suspended := Some (marked c0),
       refreshCalls := refreshCalls st + 1, pendingQueue := map marked cs\<rparr>"
    using run_unauthorized_idle [OF i(1) assms(2)] i(2) by simp
  have susp: "suspended ?s1 = Some (marked c0)"
    unfolding s1 by simp
  have a: "refreshCalls ?s1 = refreshCalls st + 1 \<and> isRefreshing ?s1
           \<and> pendingQueue ?s1 = map marked cs"
    unfolding s1 by simp
  have b: "token \<noteq> [] \<longrightarrow>
         run (map unauthorized (c0 # cs) @ [RefreshFulfilled token]) st =
           st\<lparr>storedToken := Some token, refreshCalls := refreshCalls st + 1,
              outgoing := outgoing st @ map (withBearer token) (map marked (cs @ [c0]))\<rparr>"
  proof
    assume t: "token \<noteq> []"
    have "run (map unauthorized (c0 # cs) @ [RefreshFulfilled token]) st =
            refreshFulfilled token ?s1"
      by (simp add: run_def)
    also have "\<dots> = st\<lparr>storedToken := Some token, refreshCalls := refreshCalls st + 1,
              outgoing := outgoing st @ map (withBearer token) (map marked (cs @ [c0]))\<rparr>"
      unfolding refreshFulfilled_token [OF t susp] unfolding s1 using i
      by (intro pipeline.equality) simp_all
    finally show "run (map unauthorized (c0 # cs) @ [RefreshFulfilled token]) st =
           st\<lparr>storedToken := Some token, refreshCalls := refreshCalls st + 1,
              outgoing := outgoing st @ map (withBearer token) (map marked (cs @ [c0]))\<rparr>" .
  qed
  have c0: "run (map unauthorized (c0 # cs) @ [RefreshFulfilled []]) st =
              refreshFulfilled [] ?s1"
    by (simp add: run_def)
  have c: "refreshCalls (run (map unauthorized (c0 # cs) @ [RefreshFulfilled []]) st) =
             refreshCalls st + 1
    \<and> idle (run (map unauthorized (c0 # cs) @ [RefreshFulfilled []]) st)
    \<and> rejections (run (map unauthorized (c0 # cs) @ [RefreshFulfilled []]) st) =
         rejections st @ map (\<lambda>r. (r, Error ''No token available'')) (map marked cs)"
    unfolding c0 refreshFulfilled_empty [OF susp] unfolding s1 using i by (simp add: idle_def)
  have "run (map unauthorized (c0 # cs) @ [RefreshRejected refreshErr]) st =
          refreshRejected refreshErr ?s1"
    by (simp add: run_def)
  also have "\<dots> = st\<lparr>storedToken := None, refreshCalls := refreshCalls st + 1,
            rejections := rejections st @ map (\<lambda>r. (r, refreshErr)) (map marked (cs @ [c0]))\<rparr>"
    unfolding refreshRejected_state [OF susp] unfolding s1 using i
    by (intro pipeline.equality) simp_all
  finally have d: "run (map unauthorized (c0 # cs) @ [RefreshRejected refreshErr]) st =
         st\<lparr>storedToken := None, refreshCalls := refreshCalls st + 1,
            rejections := rejections st @ map (\<lambda>r. (r, refreshErr)) (map marked (cs @ [c0]))\<rparr>" .
  from a b c d show ?thesis by blast
qed

theorem single_flight_refresh_witness:
  "idle sessionT1
   \<and> \<not> retry (failedRequest 1) \<and> \<not> retry (failedRequest 2) \<and> \<not> retry (failedRequest 3)
   \<and> run [unauthorized (failedRequest 1), unauthorized (failedRequest 2),
           unauthorized (failedRequest 3), RefreshFulfilled ''T2''] sessionT1 =
       sessionT1\<lparr>storedToken := Some ''T2'', refreshCalls := 1,
         outgoing := [\<lparr>requestId = 2, retry = True, authorization = Some ''Bearer T2''\<rparr>,
                      \<lparr>requestId = 3, retry = True, authorization = Some ''Bearer T2''\<rparr>,
                      \<lparr>requestId = 1, retry = True, authorization = Some ''Bearer T2''\<rparr>]\<rparr>
   \<and> run [unauthorized (failedRequest 1), unauthorized (failedRequest 2),
           unauthorized (failedRequest 3), RefreshRejected (Error ''refresh failed'')] sessionT1 =
       sessionT1\<lparr>storedToken := None, refreshCalls := 1,
         rejections :=
           [(\<lparr>requestId = 2, retry = True, authorization = Some ''Bearer T1''\<rparr>,
             Error ''refresh failed''),
            (\<lparr>requestId = 3, retry = True, authorization = Some ''Bearer T1''\<rparr>,
             Error ''refresh failed''),
            (\<lparr>requestId = 1, retry = True, authorization = Some ''Bearer T1''\<rparr>,
             Error ''refresh failed'')]\<rparr>"
proof -
  have i: "idle sessionT1"
    by (simp add: idle_def sessionT1_def initialPipeline_def)
  have f: "\<forall>c \<in> set (failedRequest 1 # [failedRequest 2, failedRequest 3]). \<not> retry c"
    by (simp add: failedRequest_def)
  have z: "refreshCalls sessionT1 = 0" "outgoing sessionT1 = []" "rejections sessionT1 = []"
    by (simp_all add: sessionT1_def initialPipeline_def)
  from single_flight_refresh [OF i f, of "''T2''" "Error ''refresh failed''"] i z
  show ?thesis
    by (simp add: failedRequest_def marked_def withBearer_def bearer_def)
qed

subsection \<open>Requests while a refresh is in progress\<close>

text \<open>
  Claim C3, as stated: a request issued while a refresh is in progress is queued, not
  sent, and never reaches the network with the old token. It fails: the request
  interceptor does not look at \<open>isRefreshing\<close>. Here request 1 has started a refresh;
  request 2, issued next, goes out with \<open>Bearer T1\<close> while the refresh is still in
  progress, and the queue stays empty.
\<close>

theorem request_while_refreshing_counterexample:
  "isRefreshing (run [unauthorized (failedRequest 1)] sessionT1)
   \<and> network (run [unauthorized (failedRequest 1), Request (newRequest 2), Dispatch] sessionT1) =
       [\<lparr>requestId = 2, retry = False, authorization = Some ''Bearer T1''\<rparr>]
   \<and> pendingQueue (run [unauthorized (failedRequest 1), Request (newRequest 2), Dispatch]
                     sessionT1) = []
   \<and> isRefreshing (run [unauthorized (failedRequest 1), Request (newRequest 2), Dispatch]
                     sessionT1)"
  by (simp add: pipeline_eval)

text \<open>
  Claim C3, amended: while a refresh is in progress, a request that a caller issues is
  not held back: it passes the request interceptor, which attaches the token its getter
  returns at that moment, and goes out. A request whose 401 response arrives (and that
  was not retried before) is queued, and nothing is handed to \<open>http\<close> for it. When the
  refresh resolves with a non-empty new token, the queued requests and the one that
  started the refresh are handed to \<open>http\<close>, in this order, each with the new token in
  its \<open>Authorization\<close> header; nothing has gone out for them before.
\<close>

theorem requests_while_refreshing:
  assumes "isRefreshing st" and "suspended st = Some r0" and "outgoing st = []"
  shows "run [Request config, Dispatch] st =
           st\<lparr>network := network st @ [requestInterceptor st config]\<rparr>
    \<and> (\<not> retry c \<longrightarrow>
         onRejected (AxiosError (Some 401) c) st =
           (Pending, st\<lparr>pendingQueue := pendingQueue st @ [marked c]\<rparr>))
    \<and> (token \<noteq> [] \<longrightarrow>
         outgoing (refreshFulfilled token st) = map (withBearer token) (pendingQueue st @ [r0])
         \<and> network (refreshFulfilled token st) = network st)"
proof -
  have "run [Request config, Dispatch] st =
          st\<lparr>network := network st @ [requestInterceptor st config]\<rparr>"
    using assms(3)
    by (intro pipeline.equality)
      (simp_all add: run_def http_def dispatch_def requestInterceptor_def getAccessToken_def)
  moreover have "\<not> retry c \<longrightarrow>
         onRejected (AxiosError (Some 401) c) st =
           (Pending, st\<lparr>pendingQueue := pendingQueue st @ [marked c]\<rparr>)"
    using assms(1) by (simp add: onRejected_def marked_def)
  moreover have "token \<noteq> [] \<longrightarrow>
         outgoing (refreshFulfilled token st) = map (withBearer token) (pendingQueue st @ [r0])
         \<and> network (refreshFulfilled token st) = network st"
    using refreshFulfilled_token [OF _ assms(2), of token] assms(3) by simp
  ultimately show ?thesis by blast
qed

theorem requests_while_refreshing_witness:
  "isRefreshing (run [unauthorized (failedRequest 1)] sessionT1)
   \<and> suspended (run [unauthorized (failedRequest 1)] sessionT1) = Some (marked (failedRequest 1))
   \<and> outgoing (run [unauthorized (failedRequest 1)] sessionT1) = []
   \<and> outgoing (run [unauthorized (failedRequest 1), unauthorized (failedRequest 2)] sessionT1) = []
   \<and> network (run [unauthorized (failedRequest 1), unauthorized (failedRequest 2)] sessionT1) = []
   \<and> outgoing (run [unauthorized (failedRequest 1), unauthorized (failedRequest 2),
                     RefreshFulfilled ''T2''] sessionT1) =
       [\<lparr>requestId = 2, retry = True, authorization = Some ''Bearer T2''\<rparr>,
        \<lparr>requestId = 1, retry = True, authorization = Some ''Bearer T2''\<rparr>]"
proof -
  let ?s = "run [unauthorized (failedRequest 1)] sessionT1"
  have r: "isRefreshing ?s" and s: "suspended ?s = Some (marked (failedRequest 1))"
    and u: "outgoing ?s = []"
    by (simp_all add: pipeline_eval)
  have q: "\<not> retry (failedRequest 2)"
    by (simp add: failedRequest_def)
  have e: "run [unauthorized (failedRequest 1), unauthorized (failedRequest 2)] sessionT1 =
           snd (onRejected (AxiosError (Some 401) (failedRequest 2)) ?s)"
    by (simp add: run_def unauthorized_def)
  have g: "run [unauthorized (failedRequest 1), unauthorized (failedRequest 2),
                RefreshFulfilled ''T2''] sessionT1 =
           refreshFulfilled ''T2'' (snd (onRejected (AxiosError (Some 401) (failedRequest 2)) ?s))"
    by (simp add: run_def unauthorized_def)
  have n: "network ?s = []" "pendingQueue ?s = []"
    by (simp_all add: pipeline_eval)
  let ?s2 = "?s\<lparr>pendingQueue := pendingQueue ?s @ [marked (failedRequest 2)]\<rparr>"
  have r2: "isRefreshing ?s2" and s2: "suspended ?s2 = Some (marked (failedRequest 1))"
    and u2: "outgoing ?s2 = []"
    using r s u by simp_all
  from requests_while_refreshing [OF r s u, of "newRequest 9" "failedRequest 2" "''T2''"] q
  have o: "onRejected (AxiosError (Some 401) (failedRequest 2)) ?s = (Pending, ?s2)"
    by simp
  from requests_while_refreshing [OF r2 s2 u2, of "newRequest 9" "failedRequest 2" "''T2''"] n
  have "outgoing (refreshFulfilled ''T2'' ?s2) =
     [withBearer ''T2'' (marked (failedRequest 2)), withBearer ''T2'' (marked (failedRequest 1))]"
    by simp
  with r s u e g o n show ?thesis
    by (simp add: failedRequest_def marked_def withBearer_def bearer_def)
qed

subsection \<open>Errors that pass through\<close>

text \<open>
  Claim C4: an error for a request that is already marked as retried, and an error whose
  response status is not 401 (a network-level error without a response among them), is
  handed back to the caller as it is, at once; the module state does not change, so no
  refresh is started and nothing is queued.
\<close>

theorem retried_or_other_error_passes_through:
  assumes "responseStatus err \<noteq> Some 401 \<or> alreadyRetried err"
  shows "onRejected err st = (Rejects err, st)"
  using assms by (cases err) (auto simp add: onRejected_def alreadyRetried_def)

theorem retried_or_other_error_passes_through_witness:
  "responseStatus (AxiosError None (failedRequest 1)) \<noteq> Some 401
   \<and> onRejected (AxiosError None (failedRequest 1)) sessionT1 =
       (Rejects (AxiosError None (failedRequest 1)), sessionT1)
   \<and> responseStatus (AxiosError (Some 401) (marked (failedRequest 1))) = Some 401
   \<and> alreadyRetried (AxiosError (Some 401) (marked (failedRequest 1)))
   \<and> onRejected (AxiosError (Some 401) (marked (failedRequest 1))) sessionT1 =
       (Rejects (AxiosError (Some 401) (marked (failedRequest 1))), sessionT1)"
proof -
  have a: "responseStatus (AxiosError None (failedRequest 1)) \<noteq> Some 401"
    by simp
  have b: "alreadyRetried (AxiosError (Some 401) (marked (failedRequest 1)))"
    by (simp add: alreadyRetried_def marked_def)
  from a b retried_or_other_error_passes_through [of "AxiosError None (failedRequest 1)" sessionT1]
    retried_or_other_error_passes_through
      [of "AxiosError (Some 401) (marked (failedRequest 1))" sessionT1]
  show ?thesis by simp
qed

section \<open>Properties of the password validation hook\<close>

lemmas hook_eval =
  runHook_def passwordEffect_def timerFires_def initialHook_def trim_def isWhiteSpace_def
  blank_def

lemma hookInvariant_step: "hookInvariant h \<Longrightarrow> hookInvariant (hookStep e h)"
  by (cases e)
    (auto simp add: hookInvariant_def passwordEffect_def timerFires_def blank_def Let_def
      split: option.splits)

lemma hookInvariant_run: "hookInvariant h \<Longrightarrow> hookInvariant (runHook events h)"
  unfolding runHook_def by (induction events arbitrary: h) (simp_all add: hookInvariant_step)

lemma hookInvariant_initial: "hookInvariant initialHook"
  by (simp add: hookInvariant_def initialHook_def)

text \<open>
  Claim C10: for an empty or whitespace-only password the effect of the hook clears
  \<open>validation\<close> and starts no timer, so the evaluator is not called for it (it has
  not been called now, and a timeout changes nothing); the object the hook then returns has
  \<open>validation = null\<close>, \<open>isValid = false\<close>, \<open>score = 0\<close>, no feedback and strength
  \<open>'very-weak'\<close>, whereas the evaluator reports \<open>'invalid'\<close> for the empty password.
  Over any sequence of effects and timeouts since the hook was mounted, no password that
  the hook has passed to the evaluator is blank.
\<close>

theorem hook_blank_password:
  assumes "blank password"
  shows "usePasswordValidation (passwordEffect password options h) =
           \<lparr>stateValidation = None, stateIsValidating = False, stateIsValid = False,
            stateStrength = VeryWeak, stateScore = 0, stateFeedback = [],
            stateRequirements = [], hasError = False, isStrong = False, isVeryStrong = False,
            meetsMinimum = False\<rparr>
    \<and> evaluated (passwordEffect password options h) = evaluated h
    \<and> timerFires (passwordEffect password options h) = passwordEffect password options h
    \<and> list_all (\<lambda>p. \<not> blank p) (evaluated (runHook events initialHook))
    \<and> strength (validatePasswordStrength (JSString '''') (resolvedOptions options)) = Invalid"
proof -
  have "list_all (\<lambda>p. \<not> blank p) (evaluated (runHook events initialHook))"
    using hookInvariant_run [OF hookInvariant_initial, of events] by (simp add: hookInvariant_def)
  with assms show ?thesis
    by (simp add: usePasswordValidation_def passwordEffect_def timerFires_def blank_def
        validatePasswordStrength_def Let_def)
qed

theorem hook_blank_password_witness:
  "blank ''  ''
   \<and> evaluated (runHook [Effect ''Ab1!Ab1!'' (ForUserType Customer), Timeout,
                          Effect ''  '' (ForUserType Customer), Timeout] initialHook) = [''Ab1!Ab1!'']
   \<and> stateValidation (usePasswordValidation
         (runHook [Effect ''Ab1!Ab1!'' (ForUserType Customer), Timeout,
                   Effect ''  '' (ForUserType Customer), Timeout] initialHook)) = None
   \<and> stateStrength (usePasswordValidation
         (runHook [Effect ''Ab1!Ab1!'' (ForUserType Customer), Timeout,
                   Effect ''  '' (ForUserType Customer), Timeout] initialHook)) = VeryWeak"
proof -
  let ?h = "runHook [Effect ''Ab1!Ab1!'' (ForUserType Customer), Timeout] initialHook"
  have b: "blank ''  ''" by (simp add: hook_eval)
  have r: "runHook [Effect ''Ab1!Ab1!'' (ForUserType Customer), Timeout,
                   Effect ''  '' (ForUserType Customer), Timeout] initialHook =
           timerFires (passwordEffect ''  '' (ForUserType Customer) ?h)"
    by (simp add: runHook_def)
  have e: "evaluated ?h = [''Ab1!Ab1!'']" by (simp add: hook_eval)
  from hook_blank_password [OF b, of "ForUserType Customer" ?h "[]"] b e show ?thesis
    unfolding r by simp
qed

section \<open>Properties of the password generator\<close>

















lemma drawBelow_rejecting:
  "limit \<le> 4294967295 \<Longrightarrow> drawBelow limit (replicate n 4294967295) = Exhausted"
  by (induction n) simp_all

lemma generateSecurePassword_rejecting_source:
  "generateSecurePassword (WebCrypto (replicate n 4294967295)) = Exhausted"
proof -
  have l: "length uppercase = 26" by (simp add: uppercase_def)
  have "limitFor 26 \<le> 4294967295" by (simp add: limitFor_def)
  then have "drawBelow (limitFor 26) (replicate n 4294967295) = Exhausted"
    by (rule drawBelow_rejecting)
  then have "pick uppercase (WebCrypto (replicate n 4294967295)) = Exhausted"
    by (simp add: pick_def secureRandomInt_def l)
  then show ?thesis by (simp add: generateSecurePassword_def)
qed

lemmas generator_eval =
  generateSecurePassword_def pick_def secureRandomInt_def limitFor_def fill.simps
  shuffleFrom.simps shuffle_def swap_def uppercase_def lowercase_def numbers_def special_def
  allChars_def numeral_2_eq_2 [symmetric]


text \<open>A run without Web Crypto, on results of \<open>Math.random()\<close> that alternate
  between 0 and 1/2.\<close>

lemma fallback_sample_password:
  "generateSecurePassword
     (MathRandom [zeroUnit, halfUnit, zeroUnit, halfUnit, zeroUnit, halfUnit, zeroUnit, halfUnit,
                  zeroUnit, halfUnit, zeroUnit, halfUnit, zeroUnit, halfUnit, zeroUnit, halfUnit,
                  zeroUnit, halfUnit, zeroUnit, halfUnit, zeroUnit, halfUnit, zeroUnit]) =
     Ok ''AAnA0r=rArrA''"
  by (simp add: generator_eval zeroUnit.rep_eq halfUnit.rep_eq)

text \<open>
  The password of the sample run has the semicolon as its one special character, which the
  class \<open>specialChars\<close> of the validator does not contain: under the default policy
  the validator does not accept it.
\<close>

lemma sampleSource_password_fails_validator:
  "\<not> specialCharsTest ''e5;opqrstuvH''
   \<and> \<not> isValid (validatePasswordStrength (JSString ''e5;opqrstuvH'') noOptions)"
proof -
  have s: "\<not> specialCharsTest ''e5;opqrstuvH''"
    by (simp add: specialCharsTest_def specialCharClass_def)
  have "requireSpecialChars (spread DEFAULT_PASSWORD_REQUIREMENTS noOptions)"
    by (simp add: config_eval)
  with s have "\<not> hardRequirements (spread DEFAULT_PASSWORD_REQUIREMENTS noOptions) ''e5;opqrstuvH''"
    by (simp add: hardRequirements_def)
  then have "\<not> isValid (validatePasswordStrength (JSString ''e5;opqrstuvH'') noOptions)"
    by (simp add: validatePasswordStrength_def Let_def isValidVar_softChecks
        isValidVar_hardChecks)
  with s show ?thesis by simp
qed




end
